theory Spec2Isabelle
  imports Main "HOL-Library.AList"
begin

section \<open>Python values, exceptions and the program state\<close>

text \<open>
  Python is dynamically typed: the type hints of a signature are not enforced, so every
  parameter holds an arbitrary value. \<open>PFun\<close> stands for a function object, named by its
  qualified name.
\<close>

datatype pyval =
    PNone
  | PBool bool
  | PInt int
  | PStr string
  | PList "pyval list"
  | PDict "(string \<times> pyval) list"
  | PFun string

text \<open>
  The exception classes that \<open>qiskit_runtime_service.py\<close> imports, \<open>TypeError\<close>, and any
  other exception class by name.
\<close>

datatype exn =
    QiskitBackendNotFoundError
  | RequestsApiError
  | IBMNotAuthorizedError
  | IBMInputValueError
  | IBMAccountError
  | IBMRuntimeError
  | RuntimeProgramNotFound
  | RuntimeJobNotFound
  | TypeError
  | OtherError string

text \<open>
  A call either returns a value or raises. A raised exception does not undo the writes made
  before it, so a call yields its outcome together with the state it leaves.
\<close>

datatype outcome = Return pyval | Raise exn

text \<open>
  The state: the namespace of every declared class (its class-level attributes, in
  declaration order) and the attribute dictionary of every instance, by address.
\<close>

record py_state =
  classes :: "(string \<times> (string \<times> pyval) list) list"
  heap :: "(nat \<times> (string \<times> pyval) list) list"

definition class_attr :: "string \<Rightarrow> string \<Rightarrow> py_state \<Rightarrow> pyval option" where
  "class_attr c k s = (case map_of (classes s) c of None \<Rightarrow> None | Some ns \<Rightarrow> map_of ns k)"

text \<open>A \<open>class\<close> statement binds the class name to the namespace its body has built.\<close>

definition declare_class :: "string \<Rightarrow> (string \<times> pyval) list \<Rightarrow> py_state \<Rightarrow> py_state" where
  "declare_class c ns s = s\<lparr>classes := AList.update c ns (classes s)\<rparr>"

section \<open>fake\_yorktown.py\<close>

text \<open>
  Each class body is a docstring and four assignments. The docstring, kept as written with
  its line breaks and indentation, becomes the attribute \<open>__doc__\<close>; it names the device a
  5 qubit backend and draws the coupling of the qubits 0 to 4. \<open>dirname\<close> is
  \<open>os.path.dirname(__file__)\<close>: the standard library's function and the path of the module
  file are parameters here, the same two for both classes since both are declared in the
  one module.
\<close>

definition FakeYorktownV2_doc :: string where
  "FakeYorktownV2_doc =
     ''A fake 5 qubit backend.\<newline>'' @
     ''\<newline>'' @
     ''    .. code-block:: text\<newline>'' @
     ''\<newline>'' @
     ''            1\<newline>'' @
     ''          / |\<newline>'' @
     ''        0 - 2 - 3\<newline>'' @
     ''            | /\<newline>'' @
     ''            4\<newline>'' @
     ''    ''"

definition FakeYorktown_doc :: string where
  "FakeYorktown_doc =
     ''A fake 5 qubit backend.\<newline>'' @
     ''\<newline>'' @
     ''    .. code-block:: text\<newline>'' @
     ''\<newline>'' @
     ''            1\<newline>'' @
     ''          / |\<newline>'' @
     ''        0 - 2 - 3\<newline>'' @
     ''            | /\<newline>'' @
     ''            4\<newline>'' @
     ''    ''"

definition FakeYorktownV2 :: "(string \<Rightarrow> string) \<Rightarrow> string \<Rightarrow> (string \<times> pyval) list" where
  "FakeYorktownV2 os_path_dirname file =
     [(''__doc__'', PStr FakeYorktownV2_doc),
      (''dirname'', PStr (os_path_dirname file)),
      (''conf_filename'', PStr ''conf_yorktown.json''),
      (''props_filename'', PStr ''props_yorktown.json''),
      (''backend_name'', PStr ''ibm_yorktown'')]"

definition FakeYorktown :: "(string \<Rightarrow> string) \<Rightarrow> string \<Rightarrow> (string \<times> pyval) list" where
  "FakeYorktown os_path_dirname file =
     [(''__doc__'', PStr FakeYorktown_doc),
      (''dirname'', PStr (os_path_dirname file)),
      (''conf_filename'', PStr ''conf_yorktown.json''),
      (''props_filename'', PStr ''props_yorktown.json''),
      (''backend_name'', PStr ''ibm_yorktown'')]"

text \<open>Executing the module declares \<open>FakeYorktownV2\<close>, then \<open>FakeYorktown\<close>.\<close>

definition exec_fake_yorktown :: "(string \<Rightarrow> string) \<Rightarrow> string \<Rightarrow> py_state \<Rightarrow> py_state" where
  "exec_fake_yorktown os_path_dirname file s =
     declare_class ''FakeYorktown'' (FakeYorktown os_path_dirname file)
       (declare_class ''FakeYorktownV2'' (FakeYorktownV2 os_path_dirname file) s)"

section \<open>qiskit\_runtime\_service.py\<close>

definition SERVICE_NAME :: string where
  "SERVICE_NAME = ''runtime''"

text \<open>
  The nine parameters of \<open>QiskitRuntimeService.__init__\<close> after \<open>self\<close>. Each defaults to
  \<open>None\<close>; \<open>no_args\<close> is the call that supplies none of them.
\<close>

record init_args =
  channel :: pyval
  token :: pyval
  url :: pyval
  filename :: pyval
  name :: pyval
  instance_arg :: pyval
  proxies :: pyval
  verify :: pyval
  channel_strategy :: pyval

definition no_args :: init_args where
  "no_args = \<lparr>channel = PNone, token = PNone, url = PNone, filename = PNone, name = PNone,
     instance_arg = PNone, proxies = PNone, verify = PNone, channel_strategy = PNone\<rparr>"

text \<open>
  The base class \<open>FakeProviderForBackendV2\<close> is imported from \<open>.fake_provider\<close> and its
  constructor is not part of the two files. It is a parameter: any function of the
  positional arguments, the keyword arguments, the address of \<open>self\<close> and the state.
\<close>

type_synonym init_fun =
  "pyval list \<Rightarrow> (string \<times> pyval) list \<Rightarrow> nat \<Rightarrow> py_state \<Rightarrow> outcome \<times> py_state"

text \<open>
  \<open>__init__\<close> binds its nine parameters and reads none of them. Its body is the single
  expression statement \<open>super().__init__()\<close>: the base constructor is called on \<open>self\<close> with
  no positional and no keyword argument, an exception it raises propagates, the value it
  returns is dropped, and \<open>__init__\<close> returns \<open>None\<close>.
\<close>

definition QiskitRuntimeService_init ::
  "init_fun \<Rightarrow> nat \<Rightarrow> init_args \<Rightarrow> py_state \<Rightarrow> outcome \<times> py_state" where
  "QiskitRuntimeService_init super_init self a s =
     (case super_init [] [] self s of
        (Raise e, s') \<Rightarrow> (Raise e, s')
      | (Return v, s') \<Rightarrow> (Return PNone, s'))"

text \<open>
  The class body: the attribute \<open>global_service\<close>, then the method \<open>__init__\<close>.
\<close>

definition QiskitRuntimeService :: "(string \<times> pyval) list" where
  "QiskitRuntimeService =
     [(''global_service'', PNone),
      (''__init__'', PFun ''QiskitRuntimeService.__init__'')]"

definition exec_qiskit_runtime_service :: "py_state \<Rightarrow> py_state" where
  "exec_qiskit_runtime_service s = declare_class ''QiskitRuntimeService'' QiskitRuntimeService s"

text \<open>
  The operations the two files define: executing either module, and constructing a
  \<open>QiskitRuntimeService\<close>. The descriptor classes declare no method of their own.
\<close>

datatype shown_op =
    ExecFakeYorktown
  | ExecQiskitRuntimeService
  | Construct nat init_args

fun run_op ::
  "init_fun \<Rightarrow> (string \<Rightarrow> string) \<Rightarrow> string \<Rightarrow> shown_op \<Rightarrow> py_state \<Rightarrow> py_state" where
  "run_op super_init os_path_dirname file ExecFakeYorktown s =
     exec_fake_yorktown os_path_dirname file s"
| "run_op super_init os_path_dirname file ExecQiskitRuntimeService s =
     exec_qiskit_runtime_service s"
| "run_op super_init os_path_dirname file (Construct self a) s =
     snd (QiskitRuntimeService_init super_init self a s)"

definition run_ops ::
  "init_fun \<Rightarrow> (string \<Rightarrow> string) \<Rightarrow> string \<Rightarrow> shown_op list \<Rightarrow> py_state \<Rightarrow> py_state" where
  "run_ops super_init os_path_dirname file ops s = fold (run_op super_init os_path_dirname file) ops s"

section \<open>Sample base constructors\<close>

text \<open>
  Two base constructors to run the model on. \<open>recording_init\<close> accepts any arguments and
  stores them on the instance, as
  \<^verbatim>\<open>def __init__(self, *args, **kwargs): self.args = list(args); self.kwargs = kwargs\<close>
  does; \<open>received\<close> reads them back. \<open>failing_init\<close> raises at once.
\<close>

definition recording_init :: init_fun where
  "recording_init pos kw self s =
     (Return PNone,
      s\<lparr>heap := AList.update self [(''args'', PList pos), (''kwargs'', PDict kw)] (heap s)\<rparr>)"


definition failing_init :: init_fun where
  "failing_init pos kw self s = (Raise IBMAccountError, s)"

definition empty_state :: py_state where
  "empty_state = \<lparr>classes = [], heap = []\<rparr>"

section \<open>Helper lemmas\<close>

lemma init_outcome_cases:
  "QiskitRuntimeService_init super_init self a s =
     ((case fst (super_init [] [] self s) of Raise e \<Rightarrow> Raise e | Return v \<Rightarrow> Return PNone),
      snd (super_init [] [] self s))"
  by (cases "super_init [] [] self s") (simp add: QiskitRuntimeService_init_def split: outcome.splits)

lemma class_attr_declare_same:
  "class_attr c k (declare_class c ns s) = map_of ns k"
  by (simp add: class_attr_def declare_class_def update_conv')

lemma class_attr_declare_other:
  "c' \<noteq> c \<Longrightarrow> class_attr c' k (declare_class c ns s) = class_attr c' k s"
  by (simp add: class_attr_def declare_class_def update_conv')

lemma run_ops_invariant:
  assumes step: "\<And>op s. P s \<Longrightarrow> P (run_op super_init d f op s)"
    and start: "P s"
  shows "P (run_ops super_init d f ops s)"
  unfolding run_ops_def using start
proof (induction ops arbitrary: s)
  case Nil
  then show ?case by simp
next
  case (Cons op ops)
  have "P (run_op super_init d f op s)"
    using step Cons.prems by blast
  then show ?case
    using Cons.IH by simp
qed

lemma yorktown_attrs_after_exec:
  "class_attr ''FakeYorktownV2'' k (exec_fake_yorktown d f s) = map_of (FakeYorktownV2 d f) k"
  "class_attr ''FakeYorktown'' k (exec_fake_yorktown d f s) = map_of (FakeYorktown d f) k"
  by (simp_all add: exec_fake_yorktown_def class_attr_declare_same class_attr_declare_other)

lemma yorktown_attrs_after_service:
  "class_attr ''FakeYorktownV2'' k (exec_qiskit_runtime_service s) = class_attr ''FakeYorktownV2'' k s"
  "class_attr ''FakeYorktown'' k (exec_qiskit_runtime_service s) = class_attr ''FakeYorktown'' k s"
  by (simp_all add: exec_qiskit_runtime_service_def class_attr_declare_other)

section \<open>The service constructor\<close>



text \<open>
  C2: for every combination of constructor arguments, the state that constructing a
  \<open>QiskitRuntimeService\<close> leaves is exactly the state that the constructor of its
  superclass, called with no arguments, leaves.
\<close>

theorem init_state_is_super_state:
  "snd (QiskitRuntimeService_init super_init self a s) = snd (super_init [] [] self s)"
  by (simp add: init_outcome_cases)

text \<open>
  C3: for any argument values, and so for none supplied, the constructor raises an
  exception exactly when the base-class constructor it delegates to raises that
  exception. No exception comes from the constructor's own lines.
\<close>

theorem init_raises_only_from_super:
  "(fst (QiskitRuntimeService_init super_init self a s) = Raise e) =
   (fst (super_init [] [] self s) = Raise e)"
  by (simp add: init_outcome_cases split: outcome.splits)

text \<open>
  C4: two constructions on the same instance and from the same state, with any two
  argument lists, have the same outcome and leave equal states. The result does not depend
  on any argument, the credentials included.
\<close>

theorem init_independent_of_arguments:
  "QiskitRuntimeService_init super_init self a s = QiskitRuntimeService_init super_init self b s"
  by (simp add: QiskitRuntimeService_init_def)

text \<open>
  C9: the constructor has no effect of its own. For any arguments, the state construction
  leaves is exactly the state the base-class constructor call leaves; the outcome is that
  call's, with \<open>None\<close> in place of the returned value, so no argument is validated; and
  whatever observation of the state the base-class constructor call leaves unchanged,
  construction leaves unchanged.
\<close>

theorem init_frame:
  "snd (QiskitRuntimeService_init super_init self a s) = snd (super_init [] [] self s) \<and>
   fst (QiskitRuntimeService_init super_init self a s) =
     (case fst (super_init [] [] self s) of Raise e \<Rightarrow> Raise e | Return v \<Rightarrow> Return PNone) \<and>
   (obs (snd (super_init [] [] self s)) = obs s \<longrightarrow>
      obs (snd (QiskitRuntimeService_init super_init self a s)) = obs s)"
  by (simp add: init_outcome_cases)

theorem init_frame_witness:
  "classes (snd (recording_init [] [] 0 (exec_qiskit_runtime_service empty_state))) =
     classes (exec_qiskit_runtime_service empty_state) \<and>
   classes (snd (QiskitRuntimeService_init recording_init 0 (no_args\<lparr>url := PStr ''u''\<rparr>)
     (exec_qiskit_runtime_service empty_state))) = classes (exec_qiskit_runtime_service empty_state) \<and>
   fst (QiskitRuntimeService_init recording_init 0 (no_args\<lparr>url := PStr ''u''\<rparr>)
     (exec_qiskit_runtime_service empty_state)) = Return PNone"
proof -
  have h: "classes (snd (recording_init [] [] 0 (exec_qiskit_runtime_service empty_state))) =
     classes (exec_qiskit_runtime_service empty_state)"
    by (simp add: recording_init_def)
  have r: "fst (recording_init [] [] 0 (exec_qiskit_runtime_service empty_state)) = Return PNone"
    by (simp add: recording_init_def)
  show ?thesis
    using h r init_frame [where obs = classes and super_init = recording_init and self = 0
      and s = "exec_qiskit_runtime_service empty_state"
      and a = "no_args\<lparr>url := PStr ''u''\<rparr>"]
    by simp
qed

text \<open>
  The class attribute \<open>global_service\<close> is \<open>None\<close> once the class is declared. The
  constructor has no assignment to it: after a construction it holds what the base-class
  constructor call leaves there.
\<close>

lemma global_service_declared_None:
  "class_attr ''QiskitRuntimeService'' ''global_service'' (exec_qiskit_runtime_service s) =
     Some PNone"
  by (simp add: exec_qiskit_runtime_service_def class_attr_declare_same QiskitRuntimeService_def)

lemma global_service_after_construction:
  "class_attr ''QiskitRuntimeService'' ''global_service''
     (snd (QiskitRuntimeService_init super_init self a s)) =
   class_attr ''QiskitRuntimeService'' ''global_service'' (snd (super_init [] [] self s))"
  by (simp add: init_outcome_cases)

section \<open>The fake backend descriptors\<close>

text \<open>
  C5: once the module is executed, the class attribute \<open>backend_name\<close> of \<open>FakeYorktownV2\<close>
  and of \<open>FakeYorktown\<close>, as an attribute lookup on the class reads it, is the string
  \<open>ibm_yorktown\<close>, which is not empty.
\<close>

theorem backend_name_declared:
  "class_attr ''FakeYorktownV2'' ''backend_name'' (exec_fake_yorktown d f s) =
     Some (PStr ''ibm_yorktown'') \<and>
   class_attr ''FakeYorktown'' ''backend_name'' (exec_fake_yorktown d f s) =
     Some (PStr ''ibm_yorktown'') \<and>
   0 < length ''ibm_yorktown''"
  by (simp add: yorktown_attrs_after_exec FakeYorktownV2_def FakeYorktown_def)

text \<open>
  C6: once the module is executed, each of the two descriptor classes declares \<open>dirname\<close>,
  \<open>conf_filename\<close>, \<open>props_filename\<close> and \<open>backend_name\<close>, and each attribute has the same
  value on both: the directory of the module file, \<open>conf_yorktown.json\<close>,
  \<open>props_yorktown.json\<close> and \<open>ibm_yorktown\<close>. Both also carry the same docstring, which
  names a 5 qubit backend and whose diagram has exactly the five qubit labels 1, 0, 2, 3, 4.
  So the two versions describe one and the same device.
\<close>

theorem descriptors_agree:
  "class_attr ''FakeYorktownV2'' ''dirname'' (exec_fake_yorktown d f s) = Some (PStr (d f)) \<and>
   class_attr ''FakeYorktown'' ''dirname'' (exec_fake_yorktown d f s) = Some (PStr (d f)) \<and>
   class_attr ''FakeYorktownV2'' ''conf_filename'' (exec_fake_yorktown d f s) =
     Some (PStr ''conf_yorktown.json'') \<and>
   class_attr ''FakeYorktown'' ''conf_filename'' (exec_fake_yorktown d f s) =
     Some (PStr ''conf_yorktown.json'') \<and>
   class_attr ''FakeYorktownV2'' ''props_filename'' (exec_fake_yorktown d f s) =
     Some (PStr ''props_yorktown.json'') \<and>
   class_attr ''FakeYorktown'' ''props_filename'' (exec_fake_yorktown d f s) =
     Some (PStr ''props_yorktown.json'') \<and>
   class_attr ''FakeYorktownV2'' ''backend_name'' (exec_fake_yorktown d f s) =
     Some (PStr ''ibm_yorktown'') \<and>
   class_attr ''FakeYorktown'' ''backend_name'' (exec_fake_yorktown d f s) =
     Some (PStr ''ibm_yorktown'') \<and>
   class_attr ''FakeYorktownV2'' ''__doc__'' (exec_fake_yorktown d f s) =
     Some (PStr FakeYorktownV2_doc) \<and>
   class_attr ''FakeYorktown'' ''__doc__'' (exec_fake_yorktown d f s) =
     Some (PStr FakeYorktownV2_doc) \<and>
   take 23 FakeYorktownV2_doc = ''A fake 5 qubit backend.'' \<and>
   filter (\<lambda>c. c \<in> set ''0123456789'') (drop 23 FakeYorktownV2_doc) = ''10234''"
  by (simp add: yorktown_attrs_after_exec FakeYorktownV2_def FakeYorktown_def
      FakeYorktownV2_doc_def FakeYorktown_doc_def)

text \<open>
  C8: once the module is executed, no sequence of operations of the two files changes a
  descriptor attribute. After any such sequence, \<open>dirname\<close>, \<open>conf_filename\<close>,
  \<open>props_filename\<close> and \<open>backend_name\<close> of either descriptor class hold the values of the
  class body, for every base-class constructor that does not itself assign attributes of
  that class.
\<close>

theorem descriptor_attributes_immutable:
  assumes frame: "\<And>k pos kw self s.
      class_attr c k (snd (super_init pos kw self s)) = class_attr c k s"
    and c: "c = ''FakeYorktownV2'' \<or> c = ''FakeYorktown''"
  shows "class_attr c ''dirname'' (run_ops super_init d f ops (exec_fake_yorktown d f s)) =
           Some (PStr (d f)) \<and>
         class_attr c ''conf_filename'' (run_ops super_init d f ops (exec_fake_yorktown d f s)) =
           Some (PStr ''conf_yorktown.json'') \<and>
         class_attr c ''props_filename'' (run_ops super_init d f ops (exec_fake_yorktown d f s)) =
           Some (PStr ''props_yorktown.json'') \<and>
         class_attr c ''backend_name'' (run_ops super_init d f ops (exec_fake_yorktown d f s)) =
           Some (PStr ''ibm_yorktown'')"
proof -
  define P where "P s \<longleftrightarrow> (\<forall>k. class_attr c k s = map_of (FakeYorktownV2 d f) k)" for s
  have same: "FakeYorktown d f = FakeYorktownV2 d f"
    by (simp add: FakeYorktown_def FakeYorktownV2_def FakeYorktown_doc_def FakeYorktownV2_doc_def)
  have start: "P (exec_fake_yorktown d f s)" for s
    using c by (auto simp: P_def yorktown_attrs_after_exec same)
  have step: "P (run_op super_init d f op s)" if "P s" for op s
  proof (cases op)
    case ExecFakeYorktown
    then show ?thesis using start by simp
  next
    case ExecQiskitRuntimeService
    then show ?thesis using that c by (auto simp: P_def yorktown_attrs_after_service)
  next
    case (Construct self a)
    then show ?thesis using that by (simp add: P_def init_outcome_cases frame)
  qed
  have "P (run_ops super_init d f ops (exec_fake_yorktown d f s))"
    using step start by (rule run_ops_invariant)
  then show ?thesis
    by (simp add: P_def FakeYorktownV2_def)
qed

theorem descriptor_attributes_immutable_witness:
  "class_attr ''FakeYorktown'' ''dirname''
     (run_ops recording_init (\<lambda>p. ''/pkg/yorktown'') ''/pkg/yorktown/fake_yorktown.py''
        [Construct 0 no_args, ExecQiskitRuntimeService, Construct 1 (no_args\<lparr>name := PStr ''n''\<rparr>)]
        (exec_fake_yorktown (\<lambda>p. ''/pkg/yorktown'') ''/pkg/yorktown/fake_yorktown.py'' empty_state)) =
     Some (PStr ''/pkg/yorktown'') \<and>
   class_attr ''FakeYorktown'' ''conf_filename''
     (run_ops recording_init (\<lambda>p. ''/pkg/yorktown'') ''/pkg/yorktown/fake_yorktown.py''
        [Construct 0 no_args, ExecQiskitRuntimeService, Construct 1 (no_args\<lparr>name := PStr ''n''\<rparr>)]
        (exec_fake_yorktown (\<lambda>p. ''/pkg/yorktown'') ''/pkg/yorktown/fake_yorktown.py'' empty_state)) =
     Some (PStr ''conf_yorktown.json'') \<and>
   class_attr ''FakeYorktown'' ''props_filename''
     (run_ops recording_init (\<lambda>p. ''/pkg/yorktown'') ''/pkg/yorktown/fake_yorktown.py''
        [Construct 0 no_args, ExecQiskitRuntimeService, Construct 1 (no_args\<lparr>name := PStr ''n''\<rparr>)]
        (exec_fake_yorktown (\<lambda>p. ''/pkg/yorktown'') ''/pkg/yorktown/fake_yorktown.py'' empty_state)) =
     Some (PStr ''props_yorktown.json'') \<and>
   class_attr ''FakeYorktown'' ''backend_name''
     (run_ops recording_init (\<lambda>p. ''/pkg/yorktown'') ''/pkg/yorktown/fake_yorktown.py''
        [Construct 0 no_args, ExecQiskitRuntimeService, Construct 1 (no_args\<lparr>name := PStr ''n''\<rparr>)]
        (exec_fake_yorktown (\<lambda>p. ''/pkg/yorktown'') ''/pkg/yorktown/fake_yorktown.py'' empty_state)) =
     Some (PStr ''ibm_yorktown'')"
proof -
  have h: "\<And>k pos kw self s.
      class_attr ''FakeYorktown'' k (snd (recording_init pos kw self s)) =
      class_attr ''FakeYorktown'' k s"
    by (simp add: recording_init_def class_attr_def)
  have c: "''FakeYorktown'' = ''FakeYorktownV2'' \<or> ''FakeYorktown'' = ''FakeYorktown''"
    by simp
  show ?thesis
    using descriptor_attributes_immutable [of "''FakeYorktown''" recording_init
      "\<lambda>p. ''/pkg/yorktown''" "''/pkg/yorktown/fake_yorktown.py''"
      "[Construct 0 no_args, ExecQiskitRuntimeService, Construct 1 (no_args\<lparr>name := PStr ''n''\<rparr>)]"
      empty_state, OF h c]
    by simp
qed

end
